theory Spec2Isabelle
  imports Main "HOL-Library.Sublist"
begin

section \<open>Data model\<close>

text \<open>
  The photo gallery keeps two collections in the device's key-value store
  (AsyncStorage), under the keys \<^verbatim>\<open>photos\<close> and \<^verbatim>\<open>albums\<close>, each a JSON array
  of records. The screens below read a whole array, transform it with
  \<^verbatim>\<open>map\<close>/\<^verbatim>\<open>filter\<close>/\<^verbatim>\<open>push\<close> and write the whole array back.

  The screens are \<^verbatim>\<open>GalleryScreen\<close> (\<^verbatim>\<open>app/(tabs)/gallery.tsx\<close>), the first
  \<^verbatim>\<open>PhotoDetails\<close>, \<^verbatim>\<open>CameraScreen\<close> and \<^verbatim>\<open>AlbumsScreen\<close> (all in
  \<^verbatim>\<open>app/photo/[id].tsx\<close>; the second \<^verbatim>\<open>PhotoDetails\<close> of that file has the
  same \<^verbatim>\<open>saveCaption\<close>, \<^verbatim>\<open>toggleFavorite\<close> and \<^verbatim>\<open>deletePhoto\<close>), and
  \<^verbatim>\<open>ResizableCrop\<close>. Each handler is a function of the component state and
  the store that returns what the user is told, the new state and the new
  store; navigation and rendering are left out.

  A TypeScript optional field (\<^verbatim>\<open>favorite?: boolean\<close>, \<^verbatim>\<open>coverPhotoId?: string\<close>)
  is an \<open>option\<close>; \<open>None\<close> is \<^verbatim>\<open>undefined\<close>. The field \<^verbatim>\<open>id\<close> is named
  \<open>idP\<close> for a photo and \<open>idA\<close> for an album. The albums screen builds albums
  without \<^verbatim>\<open>createdAt\<close> and without \<^verbatim>\<open>coverPhotoId\<close> and stores them under the same
  key, so both are optional in the stored record.
\<close>

record Photo =
  idP :: string
  uri :: string
  createdAt :: string
  caption :: string
  favorite :: "bool option"

record Album =
  idA :: string
  name :: string
  createdAtA :: "string option"
  photoIds :: "string list"
  coverPhotoId :: "string option"

section \<open>JavaScript primitives used by the screens\<close>

text \<open>
  \<^verbatim>\<open>a || b\<close> yields \<^verbatim>\<open>a\<close> when \<^verbatim>\<open>a\<close> is truthy and \<^verbatim>\<open>b\<close> otherwise. For a value of
  type \<^verbatim>\<open>string | undefined\<close> the falsy values are \<^verbatim>\<open>undefined\<close> and the empty
  string.
\<close>

definition truthy :: "string option \<Rightarrow> bool" where
  "truthy v = (case v of None \<Rightarrow> False | Some s \<Rightarrow> s \<noteq> [])"

definition orElse :: "string option \<Rightarrow> string option \<Rightarrow> string option" where
  "orElse a b = (if truthy a then a else b)"

text \<open>\<^verbatim>\<open>a || ''\<close> on a \<^verbatim>\<open>string | undefined\<close>.\<close>

definition orEmpty :: "string option \<Rightarrow> string" where
  "orEmpty v = (case v of None \<Rightarrow> [] | Some s \<Rightarrow> s)"

text \<open>\<^verbatim>\<open>!p.favorite\<close> on a \<^verbatim>\<open>boolean | undefined\<close>.\<close>

definition notJS :: "bool option \<Rightarrow> bool" where
  "notJS v = (case v of None \<Rightarrow> True | Some b \<Rightarrow> \<not> b)"

text \<open>\<^verbatim>\<open>Array.prototype.findIndex\<close>; \<open>None\<close> stands for the result \<^verbatim>\<open>-1\<close>.\<close>

fun findIndex :: "('a \<Rightarrow> bool) \<Rightarrow> 'a list \<Rightarrow> nat option" where
  "findIndex P [] = None"
| "findIndex P (x # xs) = (if P x then Some 0 else map_option Suc (findIndex P xs))"

text \<open>
  The screens apply four operations to strings: comparison with \<^verbatim>\<open>===\<close>, the
  test for the empty string (truthiness), \<^verbatim>\<open>String.prototype.trim\<close> and
  \<^verbatim>\<open>String.prototype.toLowerCase\<close>. The last two are functions of the
  JavaScript engine, defined over the whole of Unicode; they are not
  redefined here but passed to the handlers that call them, so that what is
  proved of a handler holds for whatever these two functions compute.
\<close>

record engine =
  toLowerCase :: "string \<Rightarrow> string"
  trim :: "string \<Rightarrow> string"

section \<open>The key-value store\<close>

text \<open>
  What a key holds is kept as the value its JSON text parses to: nothing (or
  the empty string, which the screens treat alike: \<^verbatim>\<open>stored ? JSON.parse(stored) : []\<close>),
  a text \<^verbatim>\<open>JSON.parse\<close> throws on, or the array that was written.
  \<^verbatim>\<open>getItem\<close> and \<^verbatim>\<open>setItem\<close> return promises that can reject; the keys for
  which they do are part of the store, and \<open>setItemLog\<close> records every write
  that took place, the latest first.
\<close>

datatype key = PhotosKey | AlbumsKey

datatype 'a item = Absent | Garbled | Stored 'a

datatype failure = StorageFailure | SyntaxError | FileSystemFailure | ManipulatorFailure

record AsyncStorage =
  photosItem :: "Photo list item"
  albumsItem :: "Album list item"
  unreadable :: "key set"
  unwritable :: "key set"
  setItemLog :: "key list"

definition parse :: "'a list item \<Rightarrow> failure + 'a list" where
  "parse v = (case v of Absent \<Rightarrow> Inr [] | Garbled \<Rightarrow> Inl SyntaxError | Stored xs \<Rightarrow> Inr xs)"

text \<open>\<^verbatim>\<open>await AsyncStorage.getItem(k)\<close> followed by \<^verbatim>\<open>stored ? JSON.parse(stored) : []\<close>.\<close>

definition getPhotos :: "AsyncStorage \<Rightarrow> failure + Photo list" where
  "getPhotos s = (if PhotosKey \<in> unreadable s then Inl StorageFailure else parse (photosItem s))"

definition getAlbums :: "AsyncStorage \<Rightarrow> failure + Album list" where
  "getAlbums s = (if AlbumsKey \<in> unreadable s then Inl StorageFailure else parse (albumsItem s))"

text \<open>\<^verbatim>\<open>await AsyncStorage.setItem(k, JSON.stringify(v))\<close>.\<close>

definition setPhotos :: "Photo list \<Rightarrow> AsyncStorage \<Rightarrow> failure + AsyncStorage" where
  "setPhotos v s =
     (if PhotosKey \<in> unwritable s then Inl StorageFailure
      else Inr (s\<lparr>photosItem := Stored v, setItemLog := PhotosKey # setItemLog s\<rparr>))"

definition setAlbums :: "Album list \<Rightarrow> AsyncStorage \<Rightarrow> failure + AsyncStorage" where
  "setAlbums v s =
     (if AlbumsKey \<in> unwritable s then Inl StorageFailure
      else Inr (s\<lparr>albumsItem := Stored v, setItemLog := AlbumsKey # setItemLog s\<rparr>))"

text \<open>
  What a screen tells the user or the log: the early \<^verbatim>\<open>return\<close> of a handler,
  a completed handler that shows nothing, a \<^verbatim>\<open>console.error\<close> in a \<^verbatim>\<open>catch\<close>,
  and the \<^verbatim>\<open>Alert.alert\<close> calls by their titles.
\<close>

datatype notice =
    Returned
  | Done
  | ConsoleError failure
  | AlbumNameRequired
  | NoNewPhotos
  | AddedToAlbum nat string
  | CreatedAlbum string nat
  | AlbumError
  | PhotosDeleted
  | DeleteError
  | CaptionUpdated
  | PhotoRemoved
  | EditsSaved
  | CropSaved
  | CropError
  | PhotoSaved
  | MissingInfo
  | AlbumCreated string
  | LoadError

section \<open>Gallery screen (gallery.tsx)\<close>

text \<open>
  The component state of \<^verbatim>\<open>GalleryScreen\<close>. \<open>selectedIds\<close> is a JavaScript
  \<^verbatim>\<open>Set\<close>, kept as the list \<^verbatim>\<open>Array.from\<close> gives (insertion order). The search
  text and the date sections are derived for display only and are left out.
\<close>

record gallery =
  allPhotos :: "Photo list"
  albums :: "Album list"
  selectedIds :: "string list"
  selectionMode :: bool
  showActionModal :: bool
  showAlbumModal :: bool
  albumName :: string
  isLoading :: bool

definition loadPhotos :: "gallery \<Rightarrow> AsyncStorage \<Rightarrow> notice \<times> gallery" where
  "loadPhotos g s =
     (case getPhotos s of
        Inl e \<Rightarrow> (ConsoleError e, g)
      | Inr parsed \<Rightarrow> (Done, g\<lparr>allPhotos := parsed\<rparr>))"

definition loadAlbums :: "gallery \<Rightarrow> AsyncStorage \<Rightarrow> notice \<times> gallery" where
  "loadAlbums g s =
     (case getAlbums s of
        Inl e \<Rightarrow> (ConsoleError e, g)
      | Inr parsed \<Rightarrow> (Done, g\<lparr>albums := parsed\<rparr>))"

text \<open>\<^verbatim>\<open>saveAlbums\<close> writes the albums and then sets the state; a failed write is rethrown.\<close>

definition saveAlbums :: "Album list \<Rightarrow> gallery \<Rightarrow> AsyncStorage \<Rightarrow> failure + gallery \<times> AsyncStorage" where
  "saveAlbums albumsToSave g s =
     (case setAlbums albumsToSave s of
        Inl e \<Rightarrow> Inl e
      | Inr s' \<Rightarrow> Inr (g\<lparr>albums := albumsToSave\<rparr>, s'))"

text \<open>
  \<^verbatim>\<open>createOrUpdateAlbum\<close>. The engine's \<^verbatim>\<open>trim\<close> and \<^verbatim>\<open>toLowerCase\<close> are the
  fields of the parameter \<open>js\<close>. The id and the creation time of a new
  album come from the clock and the random generator; they are the parameters
  \<open>newId\<close> and \<open>now\<close>.
\<close>

definition createOrUpdateAlbum ::
  "engine \<Rightarrow> string \<Rightarrow> string \<Rightarrow> gallery \<Rightarrow> AsyncStorage \<Rightarrow> notice \<times> gallery \<times> AsyncStorage" where
  "createOrUpdateAlbum js newId now g s =
     (if trim js (albumName g) = [] then (AlbumNameRequired, g, s)
      else
        let selectedPhotoIds = selectedIds g;
            trimmedName = trim js (albumName g)
        in case findIndex (\<lambda>album. toLowerCase js (name album) = toLowerCase js trimmedName) (albums g) of
             Some existingAlbumIndex \<Rightarrow>
               (let existingAlbum = albums g ! existingAlbumIndex;
                    newPhotoIds = filter (\<lambda>i. i \<notin> set (photoIds existingAlbum)) selectedPhotoIds
                in case newPhotoIds of
                     [] \<Rightarrow> (NoNewPhotos, g\<lparr>isLoading := False\<rparr>, s)
                   | first # _ \<Rightarrow>
                       (case saveAlbums
                               ((albums g)[existingAlbumIndex :=
                                  existingAlbum\<lparr>photoIds := photoIds existingAlbum @ newPhotoIds,
                                    coverPhotoId := orElse (coverPhotoId existingAlbum) (Some first)\<rparr>])
                               g s of
                          Inl e \<Rightarrow> (AlbumError, g\<lparr>isLoading := False\<rparr>, s)
                        | Inr (g', s') \<Rightarrow>
                            (AddedToAlbum (length newPhotoIds) trimmedName,
                             g'\<lparr>showAlbumModal := False, selectedIds := [], selectionMode := False,
                                albumName := [], isLoading := False\<rparr>, s')))
           | None \<Rightarrow>
               (let newAlbum = \<lparr>idA = newId, name = trimmedName, createdAtA = Some now,
                                photoIds = selectedPhotoIds,
                                coverPhotoId = (case selectedPhotoIds of [] \<Rightarrow> None | first # _ \<Rightarrow> Some first)\<rparr>
                in case saveAlbums (albums g @ [newAlbum]) g s of
                     Inl e \<Rightarrow> (AlbumError, g\<lparr>isLoading := False\<rparr>, s)
                   | Inr (g', s') \<Rightarrow>
                       (CreatedAlbum trimmedName (length selectedPhotoIds),
                        g'\<lparr>showAlbumModal := False, selectedIds := [], selectionMode := False,
                           albumName := [], isLoading := False\<rparr>, s')))"

text \<open>
  \<^verbatim>\<open>deleteSelected\<close>: the photos are written first, then the albums; a failure of
  either write is caught, reported and closes the action modal. \<open>cascade\<close> is
  the arrow function the source maps over the albums; its \<^verbatim>\<open>find\<close> runs over the
  album's photo ids as they were before the deletion.
\<close>

definition cascade :: "string list \<Rightarrow> Album \<Rightarrow> Album" where
  "cascade deletedIds album =
     album\<lparr>photoIds := filter (\<lambda>i. i \<notin> set deletedIds) (photoIds album),
           coverPhotoId :=
             (if orEmpty (coverPhotoId album) \<in> set deletedIds
              then orElse (find (\<lambda>i. i \<notin> set deletedIds) (photoIds album)) None
              else coverPhotoId album)\<rparr>"

definition deleteSelected :: "gallery \<Rightarrow> AsyncStorage \<Rightarrow> notice \<times> gallery \<times> AsyncStorage" where
  "deleteSelected g s =
     (let deletedIds = selectedIds g;
          remaining = filter (\<lambda>photo. idP photo \<notin> set (selectedIds g)) (allPhotos g)
      in case setPhotos remaining s of
           Inl e \<Rightarrow> (DeleteError, g\<lparr>showActionModal := False\<rparr>, s)
         | Inr s1 \<Rightarrow>
             (let updatedAlbums =
                    filter (\<lambda>album. length (photoIds album) > 0) (map (cascade deletedIds) (albums g))
              in case saveAlbums updatedAlbums g s1 of
                   Inl e \<Rightarrow> (DeleteError, g\<lparr>showActionModal := False\<rparr>, s1)
                 | Inr (g', s2) \<Rightarrow>
                     (PhotosDeleted,
                      g'\<lparr>allPhotos := remaining, selectedIds := [], selectionMode := False,
                         showActionModal := False\<rparr>, s2)))"

section \<open>Photo details screen (photo/[id].tsx)\<close>

text \<open>
  The component state of \<^verbatim>\<open>PhotoDetails\<close>; the state variable \<^verbatim>\<open>caption\<close> is
  named \<open>captionText\<close> here. The effect run on mounting has no \<^verbatim>\<open>try\<close>: a
  failed read leaves its promise rejected and the state as it was.
\<close>

record details =
  photo :: "Photo option"
  captionText :: string
  rotation :: nat
  hasEdits :: bool
  editUri :: "string option"

definition loadPhoto :: "string \<Rightarrow> details \<Rightarrow> AsyncStorage \<Rightarrow> failure + details" where
  "loadPhoto i d s =
     (case getPhotos s of
        Inl e \<Rightarrow> Inl e
      | Inr photos \<Rightarrow>
          (case find (\<lambda>p. idP p = i) photos of
             Some found \<Rightarrow>
               Inr (d\<lparr>photo := Some found, captionText := caption found, editUri := Some (uri found)\<rparr>)
           | None \<Rightarrow> Inr d))"

definition saveCaption :: "details \<Rightarrow> AsyncStorage \<Rightarrow> notice \<times> AsyncStorage" where
  "saveCaption d s =
     (case photo d of
        None \<Rightarrow> (Returned, s)
      | Some ph \<Rightarrow>
          (case getPhotos s of
             Inl e \<Rightarrow> (ConsoleError e, s)
           | Inr photos \<Rightarrow>
               (let updatedPhotos =
                      map (\<lambda>p. if idP p = idP ph then p\<lparr>caption := captionText d\<rparr> else p) photos
                in case setPhotos updatedPhotos s of
                     Inl e \<Rightarrow> (ConsoleError e, s)
                   | Inr s' \<Rightarrow> (CaptionUpdated, s'))))"

definition toggleFavorite :: "details \<Rightarrow> AsyncStorage \<Rightarrow> notice \<times> details \<times> AsyncStorage" where
  "toggleFavorite d s =
     (case photo d of
        None \<Rightarrow> (Returned, d, s)
      | Some ph \<Rightarrow>
          (case getPhotos s of
             Inl e \<Rightarrow> (ConsoleError e, d, s)
           | Inr photos \<Rightarrow>
               (let updatedPhotos =
                      map (\<lambda>p. if idP p = idP ph then p\<lparr>favorite := Some (notJS (favorite p))\<rparr> else p)
                        photos
                in case setPhotos updatedPhotos s of
                     Inl e \<Rightarrow> (ConsoleError e, d, s)
                   | Inr s' \<Rightarrow>
                       (Done, d\<lparr>photo := Some (ph\<lparr>favorite := Some (notJS (favorite ph))\<rparr>)\<rparr>, s'))))"

text \<open>
  \<^verbatim>\<open>deletePhoto\<close> removes the image file first; \<open>fileDeleted\<close> tells whether
  \<^verbatim>\<open>FileSystem.deleteAsync\<close> resolved. It reads and writes the photos only.
\<close>

definition deletePhoto :: "bool \<Rightarrow> details \<Rightarrow> AsyncStorage \<Rightarrow> notice \<times> AsyncStorage" where
  "deletePhoto fileDeleted d s =
     (case photo d of
        None \<Rightarrow> (Returned, s)
      | Some ph \<Rightarrow>
          if \<not> fileDeleted then (ConsoleError FileSystemFailure, s)
          else
            (case getPhotos s of
               Inl e \<Rightarrow> (ConsoleError e, s)
             | Inr photos \<Rightarrow>
                 (let updatedPhotos = filter (\<lambda>p. idP p \<noteq> idP ph) photos
                  in case setPhotos updatedPhotos s of
                       Inl e \<Rightarrow> (ConsoleError e, s)
                     | Inr s' \<Rightarrow> (PhotoRemoved, s'))))"

text \<open>
  \<^verbatim>\<open>saveEdits\<close> stores the uri the image manipulator returns; \<open>manipulated\<close>
  is that result (\<open>Inl\<close> when the manipulator rejects). The guard
  \<^verbatim>\<open>!photo || !editUri\<close> also returns on an empty \<^verbatim>\<open>editUri\<close>.
\<close>

definition saveEdits ::
  "failure + string \<Rightarrow> details \<Rightarrow> AsyncStorage \<Rightarrow> notice \<times> details \<times> AsyncStorage" where
  "saveEdits manipulated d s =
     (case photo d of
        None \<Rightarrow> (Returned, d, s)
      | Some ph \<Rightarrow>
          if \<not> truthy (editUri d) then (Returned, d, s)
          else
            (case manipulated of
               Inl e \<Rightarrow> (ConsoleError e, d, s)
             | Inr newUri \<Rightarrow>
                 (case getPhotos s of
                    Inl e \<Rightarrow> (ConsoleError e, d, s)
                  | Inr photos \<Rightarrow>
                      (let updatedPhotos =
                             map (\<lambda>p. if idP p = idP ph then p\<lparr>uri := newUri\<rparr> else p) photos
                       in case setPhotos updatedPhotos s of
                            Inl e \<Rightarrow> (ConsoleError e, d, s)
                          | Inr s' \<Rightarrow>
                              (EditsSaved,
                               d\<lparr>photo := Some (ph\<lparr>uri := newUri\<rparr>), rotation := 0,
                                 editUri := Some newUri, hasEdits := False\<rparr>, s')))))"

section \<open>Crop screen\<close>

text \<open>
  \<^verbatim>\<open>handleSave\<close> of \<^verbatim>\<open>ResizableCrop\<close> stores the uri of the cropped image for
  the photo whose id is the route parameter \<^verbatim>\<open>id\<close>; \<open>result\<close> is what the
  image manipulator returns. Every failure is caught and shown as an error.
\<close>

definition handleSave :: "failure + string \<Rightarrow> string \<Rightarrow> AsyncStorage \<Rightarrow> notice \<times> AsyncStorage" where
  "handleSave result i s =
     (case result of
        Inl e \<Rightarrow> (CropError, s)
      | Inr newUri \<Rightarrow>
          (case getPhotos s of
             Inl e \<Rightarrow> (CropError, s)
           | Inr parsed \<Rightarrow>
               (let updated = map (\<lambda>p. if idP p = i then p\<lparr>uri := newUri\<rparr> else p) parsed
                in case setPhotos updated s of
                     Inl e \<Rightarrow> (CropError, s)
                   | Inr s' \<Rightarrow> (CropSaved, s'))))"

section \<open>Camera screen\<close>

text \<open>
  \<^verbatim>\<open>savePhoto\<close> copies the captured file and appends a record whose id is the
  new file name. The file name (a fresh uuid followed by \<^verbatim>\<open>.jpg\<close>), the path
  and the time are parameters, and \<open>copied\<close> tells whether
  \<^verbatim>\<open>FileSystem.copyAsync\<close> resolved. The state is \<^verbatim>\<open>photoUri\<close>, cleared on
  success.
\<close>

definition savePhoto ::
  "string \<Rightarrow> string \<Rightarrow> string \<Rightarrow> bool \<Rightarrow> string option \<Rightarrow> AsyncStorage
     \<Rightarrow> notice \<times> string option \<times> AsyncStorage" where
  "savePhoto fileName newPath now copied photoUri s =
     (if \<not> truthy photoUri then (Returned, photoUri, s)
      else if \<not> copied then (ConsoleError FileSystemFailure, photoUri, s)
      else
        (case getPhotos s of
           Inl e \<Rightarrow> (ConsoleError e, photoUri, s)
         | Inr photos \<Rightarrow>
             (case setPhotos
                     (photos @ [\<lparr>idP = fileName, uri = newPath, createdAt = now, caption = [],
                                  favorite = Some False\<rparr>]) s of
                Inl e \<Rightarrow> (ConsoleError e, photoUri, s)
              | Inr s' \<Rightarrow> (PhotoSaved, None, s'))))"

section \<open>Albums screen\<close>

text \<open>
  The component state of \<^verbatim>\<open>AlbumsScreen\<close>; its fields carry the suffix \<open>S\<close>
  where the gallery has a state variable of the same name. \<^verbatim>\<open>selectedPhotoIds\<close>
  is a \<^verbatim>\<open>Set\<close>, kept as a list in insertion order.
\<close>

record albumsScreen =
  albumsS :: "Album list"
  photosS :: "Photo list"
  selectedAlbum :: "Album option"
  loading :: bool
  showCreateModal :: bool
  newAlbumName :: string
  selectedPhotoIds :: "string list"

definition loadAlbumsAndPhotos :: "albumsScreen \<Rightarrow> AsyncStorage \<Rightarrow> notice \<times> albumsScreen" where
  "loadAlbumsAndPhotos a s =
     (case getAlbums s of
        Inl e \<Rightarrow> (LoadError, a\<lparr>loading := False\<rparr>)
      | Inr albumList \<Rightarrow>
          (case getPhotos s of
             Inl e \<Rightarrow> (LoadError, a\<lparr>loading := False\<rparr>)
           | Inr photoList \<Rightarrow> (Done, a\<lparr>albumsS := albumList, photosS := photoList, loading := False\<rparr>)))"

definition getPhotosForAlbum :: "Photo list \<Rightarrow> Album \<Rightarrow> Photo list" where
  "getPhotosForAlbum photos album = filter (\<lambda>photo. idP photo \<in> set (photoIds album)) photos"

text \<open>
  The \<^verbatim>\<open>onPress\<close> handler of the Create button. It has no \<^verbatim>\<open>try\<close>: when the
  write fails the promise is rejected (\<open>Inl\<close>) and the state stays as it was.
  The new id is the clock reading, the parameter \<open>newId\<close>; \<open>js\<close> holds the
  engine's \<^verbatim>\<open>trim\<close>.
\<close>

definition createAlbum :: "engine \<Rightarrow> string \<Rightarrow> albumsScreen \<Rightarrow> AsyncStorage
     \<Rightarrow> failure + notice \<times> albumsScreen \<times> AsyncStorage" where
  "createAlbum js newId a s =
     (let trimmed = trim js (newAlbumName a) in
      if trimmed = [] \<or> length (selectedPhotoIds a) = 0 then Inr (MissingInfo, a, s)
      else
        let newAlbum = \<lparr>idA = newId, name = trimmed, createdAtA = None,
                         photoIds = selectedPhotoIds a, coverPhotoId = None\<rparr>;
            updatedAlbums = albumsS a @ [newAlbum]
        in case setAlbums updatedAlbums s of
             Inl e \<Rightarrow> Inl e
           | Inr s' \<Rightarrow> Inr (AlbumCreated trimmed, a\<lparr>albumsS := updatedAlbums, showCreateModal := False\<rparr>, s'))"

section \<open>Reference definitions and example data\<close>

text \<open>
  The projection of the photo collection onto an album as the specification
  words it: one record for each id of \<open>photoIds\<close>, in the order of
  \<open>photoIds\<close>, an id without a record being skipped. It is compared with
  \<open>getPhotosForAlbum\<close> below.
\<close>

definition photosInIdOrder :: "Photo list \<Rightarrow> Album \<Rightarrow> Photo list" where
  "photosInIdOrder photos album =
     List.map_filter (\<lambda>i. find (\<lambda>p. idP p = i) photos) (photoIds album)"

text \<open>
  The examples below use names written in ASCII letters and spaces. On such
  strings every engine's \<^verbatim>\<open>toLowerCase\<close> maps \<^verbatim>\<open>A\<close>..\<^verbatim>\<open>Z\<close> to \<^verbatim>\<open>a\<close>..\<^verbatim>\<open>z\<close> and
  keeps the other characters, and \<^verbatim>\<open>trim\<close> removes the tabs, line feeds,
  vertical tabs, form feeds, carriage returns and spaces at both ends.
  \<open>ascii\<close> is the engine of the examples; it is applied to ASCII strings
  only, and no general statement mentions it.
\<close>

definition toLowerChar :: "char \<Rightarrow> char" where
  "toLowerChar c =
     (let n = (of_char c :: nat) in if 65 \<le> n \<and> n \<le> 90 then char_of (n + 32) else c)"

definition isWhiteSpace :: "char \<Rightarrow> bool" where
  "isWhiteSpace c = (let n = (of_char c :: nat) in (9 \<le> n \<and> n \<le> 13) \<or> n = 32)"

definition ascii :: engine where
  "ascii = \<lparr>toLowerCase = map toLowerChar,
             trim = (\<lambda>s. rev (dropWhile isWhiteSpace (rev (dropWhile isWhiteSpace s))))\<rparr>"

definition photoA :: Photo where
  "photoA = \<lparr>idP = ''a'', uri = ''x'', createdAt = ''t1'', caption = [], favorite = Some False\<rparr>"

definition photoB :: Photo where
  "photoB = \<lparr>idP = ''b'', uri = ''y'', createdAt = ''t2'', caption = [], favorite = Some False\<rparr>"

definition albumBA :: Album where
  "albumBA = \<lparr>idA = ''1'', name = ''Trip'', createdAtA = None, photoIds = [''b'', ''a''],
               coverPhotoId = None\<rparr>"

text \<open>
  The albums of the specification's scenarios, stores with both photos, and
  the initial states of the screens.
\<close>

definition albumTrip :: Album where
  "albumTrip = \<lparr>idA = ''1'', name = ''Trip'', createdAtA = Some ''t0'', photoIds = [''a'', ''b''],
                 coverPhotoId = Some ''a''\<rparr>"


definition store0 :: AsyncStorage where
  "store0 = \<lparr>photosItem = Stored [photoA, photoB], albumsItem = Stored [albumTrip],
              unreadable = {}, unwritable = {}, setItemLog = []\<rparr>"

definition details0 :: details where
  "details0 = \<lparr>photo = None, captionText = [], rotation = 0, hasEdits = False, editUri = None\<rparr>"

definition gallery0 :: gallery where
  "gallery0 = \<lparr>allPhotos = [], albums = [], selectedIds = [], selectionMode = False,
                 showActionModal = False, showAlbumModal = False, albumName = [], isLoading = False\<rparr>"

definition galleryA :: gallery where
  "galleryA = gallery0\<lparr>allPhotos := [photoA, photoB], selectedIds := [''a'']\<rparr>"

definition storeP :: AsyncStorage where
  "storeP = \<lparr>photosItem = Stored [photoA, photoB], albumsItem = Absent,
              unreadable = {}, unwritable = {}, setItemLog = []\<rparr>"

definition albumT :: Album where
  "albumT = \<lparr>idA = ''1'', name = ''Trip'', createdAtA = Some ''t0'', photoIds = [''a''],
              coverPhotoId = Some ''a''\<rparr>"

definition albumsScreen0 :: albumsScreen where
  "albumsScreen0 = \<lparr>albumsS = [], photosS = [], selectedAlbum = None, loading = True,
                     showCreateModal = False, newAlbumName = [], selectedPhotoIds = []\<rparr>"

definition albumNoCover :: Album where
  "albumNoCover = \<lparr>idA = ''2'', name = ''Trip'', createdAtA = None, photoIds = [''a''],
                    coverPhotoId = None\<rparr>"

section \<open>Facts about the primitives\<close>

lemma findIndex_Some:
  "findIndex P xs = Some i \<Longrightarrow> i < length xs \<and> P (xs ! i)"
  by (induction xs arbitrary: i) (auto split: if_splits)

lemma findIndex_None: "findIndex P xs = None \<longleftrightarrow> (\<forall>x \<in> set xs. \<not> P x)"
  by (induction xs) auto

lemma findIndex_append_new:
  "findIndex P xs = None \<Longrightarrow> P y \<Longrightarrow> findIndex P (xs @ [y]) = Some (length xs)"
  by (induction xs) (auto split: if_splits)




lemma trim_Trip:
  "trim ascii ''Trip'' = ''Trip''" "trim ascii ''trip'' = ''trip''" "trim ascii '' '' = []"
  by (simp_all add: ascii_def isWhiteSpace_def)

lemma toLowerChar_Trip:
  "toLowerChar CHR ''T'' = CHR ''t''" "toLowerChar CHR ''r'' = CHR ''r''"
  "toLowerChar CHR ''i'' = CHR ''i''" "toLowerChar CHR ''p'' = CHR ''p''"
  "toLowerChar CHR ''t'' = CHR ''t''"
  by code_simp+

lemma lower_Trip:
  "toLowerCase ascii ''Trip'' = ''trip''" "toLowerCase ascii ''trip'' = ''trip''"
  by (simp_all add: ascii_def toLowerChar_Trip)


lemma map_absent_id:
  assumes "i \<notin> idP ` set ps"
  shows "map (\<lambda>p. if idP p = i then f p else p) ps = ps"
  using assms by (induction ps) auto

lemma getPhotos_after_write:
  assumes "getPhotos s = Inr ps"
  shows "getPhotos (s\<lparr>photosItem := Stored v, setItemLog := l\<rparr>) = Inr v"
  using assms by (auto simp: getPhotos_def parse_def split: if_splits)

section \<open>Photos of an album\<close>

text \<open>
  C4, as stated: \<open>getPhotosForAlbum\<close> lists the photos of an album in the
  order of the album's \<open>photoIds\<close>. It does not: for the collection
  \<open>[a, b]\<close> and an album listing \<open>[b, a]\<close> the screen shows \<open>a\<close> before
  \<open>b\<close>, while the projection in \<open>photoIds\<close> order starts with \<open>b\<close>.
\<close>

theorem getPhotosForAlbum_id_order_counterexample:
  "map idP (getPhotosForAlbum [photoA, photoB] albumBA) = [''a'', ''b'']
   \<and> map idP (photosInIdOrder [photoA, photoB] albumBA) = [''b'', ''a'']
   \<and> getPhotosForAlbum [photoA, photoB] albumBA \<noteq> photosInIdOrder [photoA, photoB] albumBA"
  by (simp add: getPhotosForAlbum_def photosInIdOrder_def photoA_def photoB_def albumBA_def
      map_filter_def)

text \<open>
  C4, amended: \<open>getPhotosForAlbum\<close> returns exactly the photo records whose id
  appears in the album's \<open>photoIds\<close>, in the order of the photo collection
  (the result is a subsequence of the collection, it is the same for any
  order of \<open>photoIds\<close>, and photos appended to the collection come last);
  an id of \<open>photoIds\<close> without a record contributes nothing and raises no
  error, the function being total.
\<close>

theorem getPhotosForAlbum_collection_order:
  "set (getPhotosForAlbum photos album) = {p \<in> set photos. idP p \<in> set (photoIds album)}
   \<and> subseq (getPhotosForAlbum photos album) photos
   \<and> set (map idP (getPhotosForAlbum photos album)) = set (photoIds album) \<inter> set (map idP photos)
   \<and> getPhotosForAlbum photos (album\<lparr>photoIds := rev (photoIds album)\<rparr>)
       = getPhotosForAlbum photos album
   \<and> getPhotosForAlbum (photos @ later) album
       = getPhotosForAlbum photos album @ getPhotosForAlbum later album"
  by (auto simp: getPhotosForAlbum_def)

section \<open>Deleting photos\<close>








text \<open>
  The gallery's \<open>deleteSelected\<close> leaves no album that lists a deleted id.
\<close>

lemma deleteSelected_no_reference:
  assumes "deleteSelected g s = (PhotosDeleted, g', s')"
  shows "\<forall>a \<in> set (albums g'). set (photoIds a) \<inter> set (selectedIds g) = {}"
  using assms
  by (auto simp: deleteSelected_def setPhotos_def saveAlbums_def setAlbums_def Let_def cascade_def
      split: if_splits)

text \<open>
  \<open>deletePhoto\<close> of the photo details screen never changes what the albums
  key holds.
\<close>

lemma deletePhoto_albums_untouched: "albumsItem (snd (deletePhoto fileDeleted d s)) = albumsItem s"
  by (simp add: deletePhoto_def setPhotos_def split: option.splits sum.splits)

text \<open>
  C1: after any DeletePhoto(id) completes, no album lists \<open>id\<close>. The gallery's
  \<open>deleteSelected\<close> achieves it (lemma \<open>deleteSelected_no_reference\<close>),
  but \<open>deletePhoto\<close> of the photo details screen writes the photos only
  (lemma \<open>deletePhoto_albums_untouched\<close>):
  with photos \<open>a\<close>, \<open>b\<close> and the album \<open>Trip = [a, b]\<close> stored, opening
  photo \<open>a\<close> and deleting it removes the record and leaves the stored album
  listing \<open>a\<close>.
\<close>

theorem deletePhoto_leaves_album_reference:
  "loadPhoto ''a'' details0 store0
     = Inr (details0\<lparr>photo := Some photoA, captionText := [], editUri := Some ''x''\<rparr>)
   \<and> deletePhoto True (details0\<lparr>photo := Some photoA, captionText := [], editUri := Some ''x''\<rparr>) store0
     = (PhotoRemoved, store0\<lparr>photosItem := Stored [photoB], setItemLog := [PhotosKey]\<rparr>)
   \<and> albumsItem (store0\<lparr>photosItem := Stored [photoB], setItemLog := [PhotosKey]\<rparr>) = Stored [albumTrip]
   \<and> ''a'' \<in> set (photoIds albumTrip)"
  by (simp add: loadPhoto_def deletePhoto_def getPhotos_def setPhotos_def parse_def store0_def
      details0_def photoA_def photoB_def albumTrip_def)



section \<open>Loading the collections\<close>

text \<open>
  C7, as stated: when a load fails, the caller sees the empty collection.
  \<open>loadPhotos\<close> catches the failure and logs it without setting the state,
  so a gallery that already shows a photo keeps showing it when the stored
  text can no longer be parsed.
\<close>

theorem loadPhotos_keeps_state_counterexample:
  "loadPhotos (gallery0\<lparr>allPhotos := [photoA]\<rparr>) (store0\<lparr>photosItem := Garbled\<rparr>)
     = (ConsoleError SyntaxError, gallery0\<lparr>allPhotos := [photoA]\<rparr>)
   \<and> allPhotos (snd (loadPhotos (gallery0\<lparr>allPhotos := [photoA]\<rparr>) (store0\<lparr>photosItem := Garbled\<rparr>)))
       \<noteq> []"
  by (simp add: loadPhotos_def getPhotos_def parse_def store0_def gallery0_def)

text \<open>
  C7, amended: a load fails exactly when the key cannot be read or its text
  cannot be parsed. The gallery (\<open>loadPhotos\<close>, \<open>loadAlbums\<close>) and the albums
  screen (\<open>loadAlbumsAndPhotos\<close>) then report the failure and return
  normally, leaving the collection in the state as it was before the load,
  which is the empty collection when nothing was loaded before. A readable
  key that holds no value yields the empty collection.
\<close>

theorem load_failure_keeps_state:
  "((\<exists>e. getPhotos s = Inl e) \<longleftrightarrow> PhotosKey \<in> unreadable s \<or> photosItem s = Garbled)
   \<and> ((\<exists>e. getAlbums s = Inl e) \<longleftrightarrow> AlbumsKey \<in> unreadable s \<or> albumsItem s = Garbled)
   \<and> (getPhotos s = Inl e \<longrightarrow> loadPhotos g s = (ConsoleError e, g))
   \<and> (getAlbums s = Inl e \<longrightarrow> loadAlbums g s = (ConsoleError e, g))
   \<and> (getPhotos s = Inl e \<and> allPhotos g = [] \<longrightarrow> allPhotos (snd (loadPhotos g s)) = [])
   \<and> (getAlbums s = Inl e \<and> albums g = [] \<longrightarrow> albums (snd (loadAlbums g s)) = [])
   \<and> (getPhotos s = Inl e \<or> getAlbums s = Inl e \<longrightarrow>
        loadAlbumsAndPhotos a s = (LoadError, a\<lparr>loading := False\<rparr>))
   \<and> (PhotosKey \<notin> unreadable s \<and> photosItem s = Absent \<longrightarrow>
        loadPhotos g s = (Done, g\<lparr>allPhotos := []\<rparr>))
   \<and> (AlbumsKey \<notin> unreadable s \<and> albumsItem s = Absent \<longrightarrow>
        loadAlbums g s = (Done, g\<lparr>albums := []\<rparr>))"
  by (auto simp: loadPhotos_def loadAlbums_def loadAlbumsAndPhotos_def getPhotos_def getAlbums_def
      parse_def split: item.splits sum.splits)

text \<open>
  Witness for C7: a first load from a store whose photos cannot be parsed
  shows no photo, and so does a load from a store that holds no photos.
\<close>

theorem load_failure_keeps_state_witness:
  "getPhotos (store0\<lparr>photosItem := Garbled\<rparr>) = Inl SyntaxError
   \<and> allPhotos gallery0 = []
   \<and> loadPhotos gallery0 (store0\<lparr>photosItem := Garbled\<rparr>) = (ConsoleError SyntaxError, gallery0)
   \<and> PhotosKey \<notin> unreadable (store0\<lparr>photosItem := Absent\<rparr>)
   \<and> loadPhotos galleryA (store0\<lparr>photosItem := Absent\<rparr>) = (Done, galleryA\<lparr>allPhotos := []\<rparr>)"
  using load_failure_keeps_state [of "store0\<lparr>photosItem := Garbled\<rparr>" SyntaxError gallery0]
    load_failure_keeps_state [of "store0\<lparr>photosItem := Absent\<rparr>" SyntaxError galleryA]
  by (simp add: getPhotos_def parse_def store0_def gallery0_def)

text \<open>
  The effect that loads the photo of the details screen has no \<^verbatim>\<open>catch\<close>: a
  failed read is the result of the effect, and the state is not set.
\<close>

lemma loadPhoto_failure_uncaught:
  assumes "getPhotos s = Inl e"
  shows "loadPhoto i d s = Inl e"
  using assms by (simp add: loadPhoto_def)

section \<open>Changing a photo\<close>

text \<open>
  What the three handlers of the photo details screen do when the screen
  holds a photo, the photos can be read and the write succeeds.
\<close>

lemma saveCaption_completes:
  assumes "photo d = Some ph" and "getPhotos s = Inr ps" and "PhotosKey \<notin> unwritable s"
  shows "saveCaption d s =
    (CaptionUpdated,
     s\<lparr>photosItem := Stored (map (\<lambda>p. if idP p = idP ph then p\<lparr>caption := captionText d\<rparr> else p) ps),
       setItemLog := PhotosKey # setItemLog s\<rparr>)"
  using assms by (simp add: saveCaption_def setPhotos_def)

lemma toggleFavorite_completes:
  assumes "photo d = Some ph" and "getPhotos s = Inr ps" and "PhotosKey \<notin> unwritable s"
  shows "toggleFavorite d s =
    (Done, d\<lparr>photo := Some (ph\<lparr>favorite := Some (notJS (favorite ph))\<rparr>)\<rparr>,
     s\<lparr>photosItem := Stored (map (\<lambda>p. if idP p = idP ph then p\<lparr>favorite := Some (notJS (favorite p))\<rparr> else p) ps),
       setItemLog := PhotosKey # setItemLog s\<rparr>)"
  using assms by (simp add: toggleFavorite_def setPhotos_def)

lemma saveEdits_completes:
  assumes "photo d = Some ph" and "getPhotos s = Inr ps" and "PhotosKey \<notin> unwritable s"
    and "truthy (editUri d)"
  shows "saveEdits (Inr u) d s =
    (EditsSaved,
     d\<lparr>photo := Some (ph\<lparr>uri := u\<rparr>), rotation := 0, editUri := Some u, hasEdits := False\<rparr>,
     s\<lparr>photosItem := Stored (map (\<lambda>p. if idP p = idP ph then p\<lparr>uri := u\<rparr> else p) ps),
       setItemLog := PhotosKey # setItemLog s\<rparr>)"
  using assms by (simp add: saveEdits_def setPhotos_def)

lemma handleSave_completes:
  assumes "getPhotos s = Inr ps" and "PhotosKey \<notin> unwritable s"
  shows "handleSave (Inr u) i s =
    (CropSaved,
     s\<lparr>photosItem := Stored (map (\<lambda>p. if idP p = i then p\<lparr>uri := u\<rparr> else p) ps),
       setItemLog := PhotosKey # setItemLog s\<rparr>)"
  using assms by (simp add: handleSave_def setPhotos_def)

text \<open>
  C5, as stated: an update of an id that is absent from the stored photos
  fails and writes nothing. No handler reports a missing id. A details screen
  that still holds photo \<open>a\<close> after \<open>a\<close> was deleted in the gallery (the
  caption dialog pushes the gallery over the details screen) saves a caption:
  it reports success and writes the photos back.
\<close>

theorem saveCaption_unknown_id_counterexample:
  "saveCaption (details0\<lparr>photo := Some photoA, captionText := ''sea'', editUri := Some ''x''\<rparr>)
       (store0\<lparr>photosItem := Stored [photoB]\<rparr>)
     = (CaptionUpdated, store0\<lparr>photosItem := Stored [photoB], setItemLog := [PhotosKey]\<rparr>)
   \<and> idP photoA \<notin> idP ` set [photoB]
   \<and> setItemLog (store0\<lparr>photosItem := Stored [photoB]\<rparr>) = []"
  by (simp add: saveCaption_def getPhotos_def setPhotos_def parse_def store0_def details0_def
      photoA_def photoB_def)

text \<open>
  C5, amended: for an id that is absent from the stored photos, no update
  fails. When the screen holds a photo with that id, \<open>saveCaption\<close> and
  \<open>toggleFavorite\<close> complete with their usual notice and write the photos
  back with every record unchanged; so do \<open>handleSave\<close> of the crop screen
  for that id and, when there is an edited uri, \<open>saveEdits\<close> (which returns
  without writing when there is none). The photos read after the call are the
  photos read before it. When the details screen holds no photo, its handlers
  return without writing.
\<close>

theorem update_unknown_id_writes_back:
  assumes "photo d = Some ph" and "getPhotos s = Inr ps" and "PhotosKey \<notin> unwritable s"
    and "idP ph \<notin> idP ` set ps"
  shows "saveCaption d s
        = (CaptionUpdated, s\<lparr>photosItem := Stored ps, setItemLog := PhotosKey # setItemLog s\<rparr>)
     \<and> fst (toggleFavorite d s) = Done
     \<and> snd (snd (toggleFavorite d s))
        = s\<lparr>photosItem := Stored ps, setItemLog := PhotosKey # setItemLog s\<rparr>
     \<and> handleSave (Inr u) (idP ph) s
        = (CropSaved, s\<lparr>photosItem := Stored ps, setItemLog := PhotosKey # setItemLog s\<rparr>)
     \<and> (truthy (editUri d) \<longrightarrow>
          fst (saveEdits (Inr u) d s) = EditsSaved
        \<and> snd (snd (saveEdits (Inr u) d s))
            = s\<lparr>photosItem := Stored ps, setItemLog := PhotosKey # setItemLog s\<rparr>)
     \<and> (\<not> truthy (editUri d) \<longrightarrow> saveEdits (Inr u) d s = (Returned, d, s))
     \<and> getPhotos (s\<lparr>photosItem := Stored ps, setItemLog := PhotosKey # setItemLog s\<rparr>) = Inr ps
     \<and> saveCaption (d\<lparr>photo := None\<rparr>) s = (Returned, s)
     \<and> toggleFavorite (d\<lparr>photo := None\<rparr>) s = (Returned, d\<lparr>photo := None\<rparr>, s)
     \<and> saveEdits (Inr u) (d\<lparr>photo := None\<rparr>) s = (Returned, d\<lparr>photo := None\<rparr>, s)"
  using assms
  by (simp add: saveCaption_completes toggleFavorite_completes saveEdits_completes
      handleSave_completes map_absent_id getPhotos_after_write)
     (simp add: saveCaption_def toggleFavorite_def saveEdits_def)

text \<open>
  Witness for C5: the details screen holds photo \<open>a\<close> and the store holds
  photo \<open>b\<close> only.
\<close>

theorem update_unknown_id_writes_back_witness:
  "getPhotos (store0\<lparr>photosItem := Stored [photoB]\<rparr>) = Inr [photoB]
   \<and> PhotosKey \<notin> unwritable (store0\<lparr>photosItem := Stored [photoB]\<rparr>)
   \<and> idP photoA \<notin> idP ` set [photoB]
   \<and> truthy (Some ''x'')
   \<and> snd (snd (toggleFavorite
        (details0\<lparr>photo := Some photoA, captionText := ''sea'', editUri := Some ''x''\<rparr>)
        (store0\<lparr>photosItem := Stored [photoB]\<rparr>)))
       = store0\<lparr>photosItem := Stored [photoB], setItemLog := [PhotosKey]\<rparr>
   \<and> snd (snd (saveEdits (Inr ''z'')
        (details0\<lparr>photo := Some photoA, captionText := ''sea'', editUri := Some ''x''\<rparr>)
        (store0\<lparr>photosItem := Stored [photoB]\<rparr>)))
       = store0\<lparr>photosItem := Stored [photoB], setItemLog := [PhotosKey]\<rparr>"
proof -
  have h1: "photo (details0\<lparr>photo := Some photoA, captionText := ''sea'', editUri := Some ''x''\<rparr>)
      = Some photoA"
    by simp
  have h2: "getPhotos (store0\<lparr>photosItem := Stored [photoB]\<rparr>) = Inr [photoB]"
    by (simp add: getPhotos_def parse_def store0_def)
  have h3: "PhotosKey \<notin> unwritable (store0\<lparr>photosItem := Stored [photoB]\<rparr>)"
    by (simp add: store0_def)
  have h4: "idP photoA \<notin> idP ` set [photoB]"
    by (simp add: photoA_def photoB_def)
  have h5: "truthy (Some ''x'')"
    by (simp add: truthy_def)
  from update_unknown_id_writes_back [OF h1 h2 h3 h4, of "''z''"] h2 h3 h4 h5
  show ?thesis
    by (simp add: store0_def)
qed

text \<open>
  C6: for a photo the screen holds, \<open>saveCaption\<close>, \<open>toggleFavorite\<close> and
  \<open>handleSave\<close> (of the crop screen, for the photo's id) store a collection
  of the same length with the same ids in the same order, in which each
  record with the photo's id has the new caption, the negated favorite flag
  or the new uri and every other field as before, and each other record is as
  it was. \<open>saveEdits\<close>, when there is an edited uri, stores the same
  collection as \<open>handleSave\<close>.
\<close>

theorem update_patches_one_record:
  assumes "photo d = Some ph" and "getPhotos s = Inr ps" and "PhotosKey \<notin> unwritable s"
  shows "\<exists>ps1 ps2 ps3.
      getPhotos (snd (saveCaption d s)) = Inr ps1
    \<and> length ps1 = length ps \<and> map idP ps1 = map idP ps
    \<and> list_all2 (\<lambda>p p'. p' = (if idP p = idP ph then p\<lparr>caption := captionText d\<rparr> else p)) ps ps1
    \<and> getPhotos (snd (snd (toggleFavorite d s))) = Inr ps2
    \<and> length ps2 = length ps \<and> map idP ps2 = map idP ps
    \<and> list_all2 (\<lambda>p p'. p' = (if idP p = idP ph then p\<lparr>favorite := Some (notJS (favorite p))\<rparr> else p)) ps ps2
    \<and> getPhotos (snd (handleSave (Inr u) (idP ph) s)) = Inr ps3
    \<and> length ps3 = length ps \<and> map idP ps3 = map idP ps
    \<and> list_all2 (\<lambda>p p'. p' = (if idP p = idP ph then p\<lparr>uri := u\<rparr> else p)) ps ps3
    \<and> (truthy (editUri d) \<longrightarrow> getPhotos (snd (snd (saveEdits (Inr u) d s))) = Inr ps3)"
proof -
  have ids: "map idP (map (\<lambda>p. if idP p = i then f p else p) ps) = map idP ps"
    if "\<And>p. idP (f p) = idP p" for f and i :: string
    using that by (induction ps) auto
  have rel: "list_all2 (\<lambda>p p'. p' = (if idP p = i then f p else p)) ps
               (map (\<lambda>p. if idP p = i then f p else p) ps)" for f and i :: string
    by (simp add: list_all2_map2 list_all2_same)
  show ?thesis
    using assms
    by (simp add: saveCaption_completes toggleFavorite_completes saveEdits_completes
        handleSave_completes getPhotos_after_write ids rel)
qed

text \<open>
  Witness for C6: photo \<open>a\<close> of the collection \<open>[a, b]\<close> gets the caption
  \<open>sea\<close>, becomes a favorite, or gets the uri \<open>z\<close> (from the details
  screen or from the crop screen); photo \<open>b\<close> stays.
\<close>

theorem update_patches_one_record_witness:
  "getPhotos store0 = Inr [photoA, photoB] \<and> PhotosKey \<notin> unwritable store0
   \<and> truthy (Some ''x'')
   \<and> getPhotos (snd (saveCaption (details0\<lparr>photo := Some photoA, captionText := ''sea'', editUri := Some ''x''\<rparr>) store0))
       = Inr [photoA\<lparr>caption := ''sea''\<rparr>, photoB]
   \<and> getPhotos (snd (snd (toggleFavorite (details0\<lparr>photo := Some photoA, captionText := ''sea'', editUri := Some ''x''\<rparr>) store0)))
       = Inr [photoA\<lparr>favorite := Some True\<rparr>, photoB]
   \<and> getPhotos (snd (snd (saveEdits (Inr ''z'') (details0\<lparr>photo := Some photoA, captionText := ''sea'', editUri := Some ''x''\<rparr>) store0)))
       = Inr [photoA\<lparr>uri := ''z''\<rparr>, photoB]
   \<and> getPhotos (snd (handleSave (Inr ''z'') ''a'' store0)) = Inr [photoA\<lparr>uri := ''z''\<rparr>, photoB]"
proof -
  have h1: "photo (details0\<lparr>photo := Some photoA, captionText := ''sea'', editUri := Some ''x''\<rparr>)
      = Some photoA"
    by simp
  have h2: "getPhotos store0 = Inr [photoA, photoB]"
    by (simp add: getPhotos_def parse_def store0_def)
  have h3: "PhotosKey \<notin> unwritable store0"
    by (simp add: store0_def)
  have h5: "truthy (Some ''x'')"
    by (simp add: truthy_def)
  from update_patches_one_record [OF h1 h2 h3, of "''z''"] h2 h3 h5
  show ?thesis
    by (simp add: photoA_def photoB_def notJS_def list_all2_Cons1)
qed

section \<open>Adding a photo and deleting it again\<close>

text \<open>
  C8: when the photos can be read and written and the new file name is the
  id of no stored photo, \<open>savePhoto\<close> stores the collection with one more
  record, the new one at the end; opening the photo details of the new id
  finds that record, and \<open>deletePhoto\<close> then stores the collection as it was
  read before the photo was added (the key holds what it held, unless it held
  nothing: then it holds the empty collection). The albums are not touched.
\<close>

theorem savePhoto_deletePhoto_round_trip:
  assumes "getPhotos s = Inr ps" and "PhotosKey \<notin> unwritable s"
    and "fileName \<notin> idP ` set ps" and "truthy photoUri"
  shows "\<exists>s1 d1 s2.
      savePhoto fileName newPath now True photoUri s = (PhotoSaved, None, s1)
    \<and> getPhotos s1 = Inr (ps @ [\<lparr>idP = fileName, uri = newPath, createdAt = now, caption = [], favorite = Some False\<rparr>])
    \<and> length (ps @ [\<lparr>idP = fileName, uri = newPath, createdAt = now, caption = [], favorite = Some False\<rparr>]) = length ps + 1
    \<and> loadPhoto fileName d s1 = Inr d1
    \<and> photo d1 = Some \<lparr>idP = fileName, uri = newPath, createdAt = now, caption = [], favorite = Some False\<rparr>
    \<and> deletePhoto True d1 s1 = (PhotoRemoved, s2)
    \<and> getPhotos s2 = Inr ps
    \<and> (photosItem s = Stored ps \<longrightarrow> photosItem s2 = photosItem s)
    \<and> albumsItem s2 = albumsItem s"
proof -
  let ?p = "\<lparr>idP = fileName, uri = newPath, createdAt = now, caption = [], favorite = Some False\<rparr>"
  let ?s1 = "s\<lparr>photosItem := Stored (ps @ [?p]), setItemLog := PhotosKey # setItemLog s\<rparr>"
  have save: "savePhoto fileName newPath now True photoUri s = (PhotoSaved, None, ?s1)"
    using assms by (simp add: savePhoto_def setPhotos_def)
  have get1: "getPhotos ?s1 = Inr (ps @ [?p])"
    using assms(1) by (rule getPhotos_after_write)
  have fresh: "find (\<lambda>p. idP p = fileName) ps = None"
    using assms(3) by (auto simp: find_None_iff)
  have found: "find (\<lambda>p. idP p = fileName) (ps @ [?p]) = Some ?p"
    using fresh by (induction ps) (auto split: if_splits)
  let ?d1 = "d\<lparr>photo := Some ?p, captionText := [], editUri := Some newPath\<rparr>"
  have load: "loadPhoto fileName d ?s1 = Inr ?d1"
    by (simp add: loadPhoto_def get1 found)
  have keep: "filter (\<lambda>p. idP p \<noteq> fileName) ps = ps"
    using assms(3) by (induction ps) auto
  let ?s2 = "?s1\<lparr>photosItem := Stored ps, setItemLog := PhotosKey # setItemLog ?s1\<rparr>"
  have del: "deletePhoto True ?d1 ?s1 = (PhotoRemoved, ?s2)"
    using assms(2) by (simp add: deletePhoto_def get1 setPhotos_def keep)
  have get2: "getPhotos ?s2 = Inr ps"
    using get1 by (rule getPhotos_after_write)
  show ?thesis
    using save get1 load del get2 by simp
qed

text \<open>
  Witness for C8: photo \<open>c\<close> is added to the collection \<open>[a, b]\<close> and
  deleted again.
\<close>

theorem savePhoto_deletePhoto_round_trip_witness:
  "getPhotos store0 = Inr [photoA, photoB] \<and> PhotosKey \<notin> unwritable store0
   \<and> ''c'' \<notin> idP ` set [photoA, photoB] \<and> truthy (Some ''tmp'')
   \<and> (\<exists>s1 d1 s2.
        savePhoto ''c'' ''z'' ''t3'' True (Some ''tmp'') store0 = (PhotoSaved, None, s1)
      \<and> getPhotos s1 = Inr ([photoA, photoB] @
            [\<lparr>idP = ''c'', uri = ''z'', createdAt = ''t3'', caption = [], favorite = Some False\<rparr>])
      \<and> loadPhoto ''c'' details0 s1 = Inr d1
      \<and> deletePhoto True d1 s1 = (PhotoRemoved, s2)
      \<and> getPhotos s2 = Inr [photoA, photoB])"
proof -
  have h1: "getPhotos store0 = Inr [photoA, photoB]"
    by (simp add: getPhotos_def parse_def store0_def)
  have h2: "PhotosKey \<notin> unwritable store0"
    by (simp add: store0_def)
  have h3: "''c'' \<notin> idP ` set [photoA, photoB]"
    by (simp add: photoA_def photoB_def)
  have h4: "truthy (Some ''tmp'')"
    by (simp add: truthy_def)
  from savePhoto_deletePhoto_round_trip [OF h1 h2 h3 h4, of "''z''" "''t3''" details0]
  have "\<exists>s1 d1 s2.
        savePhoto ''c'' ''z'' ''t3'' True (Some ''tmp'') store0 = (PhotoSaved, None, s1)
      \<and> getPhotos s1 = Inr ([photoA, photoB] @
            [\<lparr>idP = ''c'', uri = ''z'', createdAt = ''t3'', caption = [], favorite = Some False\<rparr>])
      \<and> loadPhoto ''c'' details0 s1 = Inr d1
      \<and> deletePhoto True d1 s1 = (PhotoRemoved, s2)
      \<and> getPhotos s2 = Inr [photoA, photoB]"
    by blast
  with h1 h2 h3 h4 show ?thesis by blast
qed

section \<open>Creating an album or adding to one\<close>

text \<open>
  The three ways \<open>createOrUpdateAlbum\<close> ends when the name is not blank and
  the albums can be written: a new album, nothing to add, or photos added to
  the first album whose name matches.
\<close>

lemma createOrUpdateAlbum_create:
  assumes "trim js (albumName g) \<noteq> []" and "AlbumsKey \<notin> unwritable s"
    and "findIndex (\<lambda>album. toLowerCase js (name album) = toLowerCase js (trim js (albumName g))) (albums g) = None"
  shows "createOrUpdateAlbum js newId now g s =
    (CreatedAlbum (trim js (albumName g)) (length (selectedIds g)),
     g\<lparr>albums := albums g @ [\<lparr>idA = newId, name = trim js (albumName g), createdAtA = Some now,
                                photoIds = selectedIds g,
                                coverPhotoId = (case selectedIds g of [] \<Rightarrow> None | first # _ \<Rightarrow> Some first)\<rparr>],
       showAlbumModal := False, selectedIds := [], selectionMode := False, albumName := [],
       isLoading := False\<rparr>,
     s\<lparr>albumsItem := Stored (albums g @ [\<lparr>idA = newId, name = trim js (albumName g), createdAtA = Some now,
                                photoIds = selectedIds g,
                                coverPhotoId = (case selectedIds g of [] \<Rightarrow> None | first # _ \<Rightarrow> Some first)\<rparr>]),
       setItemLog := AlbumsKey # setItemLog s\<rparr>)"
  using assms by (simp add: createOrUpdateAlbum_def saveAlbums_def setAlbums_def Let_def)

lemma createOrUpdateAlbum_nochange:
  assumes "trim js (albumName g) \<noteq> []"
    and "findIndex (\<lambda>album. toLowerCase js (name album) = toLowerCase js (trim js (albumName g))) (albums g) = Some i"
    and "filter (\<lambda>p. p \<notin> set (photoIds (albums g ! i))) (selectedIds g) = []"
  shows "createOrUpdateAlbum js newId now g s = (NoNewPhotos, g\<lparr>isLoading := False\<rparr>, s)"
  using assms by (simp add: createOrUpdateAlbum_def Let_def)

lemma createOrUpdateAlbum_append:
  assumes "trim js (albumName g) \<noteq> []" and "AlbumsKey \<notin> unwritable s"
    and "findIndex (\<lambda>album. toLowerCase js (name album) = toLowerCase js (trim js (albumName g))) (albums g) = Some i"
    and "filter (\<lambda>p. p \<notin> set (photoIds (albums g ! i))) (selectedIds g) = first # rest"
  shows "createOrUpdateAlbum js newId now g s =
    (AddedToAlbum (Suc (length rest)) (trim js (albumName g)),
     g\<lparr>albums := (albums g)[i := (albums g ! i)\<lparr>photoIds := photoIds (albums g ! i) @ first # rest,
                                   coverPhotoId := orElse (coverPhotoId (albums g ! i)) (Some first)\<rparr>],
       showAlbumModal := False, selectedIds := [], selectionMode := False, albumName := [],
       isLoading := False\<rparr>,
     s\<lparr>albumsItem := Stored ((albums g)[i := (albums g ! i)\<lparr>photoIds := photoIds (albums g ! i) @ first # rest,
                                   coverPhotoId := orElse (coverPhotoId (albums g ! i)) (Some first)\<rparr>]),
       setItemLog := AlbumsKey # setItemLog s\<rparr>)"
  using assms by (simp add: createOrUpdateAlbum_def saveAlbums_def setAlbums_def Let_def)

text \<open>
  A name that is blank after trimming is turned away before any album is
  looked up.
\<close>

lemma createOrUpdateAlbum_blank_name:
  assumes "trim js (albumName g) = []"
  shows "createOrUpdateAlbum js newId now g s = (AlbumNameRequired, g, s)"
  using assms by (simp add: createOrUpdateAlbum_def)



text \<open>
  C10: the cover of an album is unset or a photo id, and photo ids are file
  names (a uuid followed by \<^verbatim>\<open>.jpg\<close>), so no cover is the empty string. For
  such albums, when \<open>createOrUpdateAlbum\<close> adds photos to an existing album
  (the first album whose name matches), the album lists its former ids
  followed by the selected ids it did not list, at least one; a cover that is
  set is left as it is, and an unset cover becomes the first id added. The
  other albums are not changed, and the albums written to the store are the
  albums of the state.
\<close>

theorem createOrUpdateAlbum_append_cover:
  assumes "createOrUpdateAlbum js newId now g s = (AddedToAlbum k nm, g', s')"
    and "\<forall>a \<in> set (albums g). coverPhotoId a \<noteq> Some []"
  shows "\<exists>i first rest.
       findIndex (\<lambda>album. toLowerCase js (name album) = toLowerCase js (trim js (albumName g)))
         (albums g) = Some i
     \<and> i < length (albums g)
     \<and> filter (\<lambda>p. p \<notin> set (photoIds (albums g ! i))) (selectedIds g) = first # rest
     \<and> k = length (first # rest) \<and> nm = trim js (albumName g)
     \<and> albums g' = (albums g)[i := (albums g ! i)
           \<lparr>photoIds := photoIds (albums g ! i) @ first # rest,
             coverPhotoId := (case coverPhotoId (albums g ! i) of
                                None \<Rightarrow> Some first
                              | Some c \<Rightarrow> Some c)\<rparr>]
     \<and> albumsItem s' = Stored (albums g')"
proof -
  let ?P = "\<lambda>album. toLowerCase js (name album) = toLowerCase js (trim js (albumName g))"
  from assms(1) have name: "trim js (albumName g) \<noteq> []"
    by (auto simp: createOrUpdateAlbum_def split: if_splits)
  from assms(1) name obtain i where idx: "findIndex ?P (albums g) = Some i"
    by (cases "findIndex ?P (albums g)")
       (auto simp: createOrUpdateAlbum_def Let_def split: sum.splits)
  note bound = findIndex_Some [OF idx]
  from assms(1) name idx obtain first rest
    where new: "filter (\<lambda>p. p \<notin> set (photoIds (albums g ! i))) (selectedIds g) = first # rest"
    by (cases "filter (\<lambda>p. p \<notin> set (photoIds (albums g ! i))) (selectedIds g)")
       (auto simp: createOrUpdateAlbum_def Let_def)
  from assms(1) name idx new have w: "AlbumsKey \<notin> unwritable s"
    by (auto simp: createOrUpdateAlbum_def Let_def saveAlbums_def setAlbums_def split: if_splits)
  from bound assms(2) have "coverPhotoId (albums g ! i) \<noteq> Some []"
    by simp
  then have cover: "orElse (coverPhotoId (albums g ! i)) (Some first)
      = (case coverPhotoId (albums g ! i) of None \<Rightarrow> Some first | Some c \<Rightarrow> Some c)"
    by (simp add: orElse_def truthy_def split: option.splits)
  from createOrUpdateAlbum_append [OF name w idx new, of newId now] assms(1)
  have "albums g' = (albums g)[i := (albums g ! i)\<lparr>photoIds := photoIds (albums g ! i) @ first # rest,
                                   coverPhotoId := orElse (coverPhotoId (albums g ! i)) (Some first)\<rparr>]"
    and "albumsItem s' = Stored (albums g')"
    and "k = length (first # rest)" and "nm = trim js (albumName g)"
    by auto
  with idx bound new cover show ?thesis
    by simp
qed

text \<open>
  Witness for C10: photo \<open>b\<close> is added to an album of photo \<open>a\<close>; without
  a cover the album gets the cover \<open>b\<close>, with the cover \<open>a\<close> it keeps it.
\<close>

theorem createOrUpdateAlbum_append_cover_witness:
  "createOrUpdateAlbum ascii ''9'' ''t9''
       (gallery0\<lparr>albums := [albumNoCover], albumName := ''trip'', selectedIds := [''a'', ''b'']\<rparr>) storeP
     = (AddedToAlbum 1 ''trip'',
        gallery0\<lparr>albums := [albumNoCover\<lparr>photoIds := [''a'', ''b''], coverPhotoId := Some ''b''\<rparr>]\<rparr>,
        storeP\<lparr>albumsItem := Stored [albumNoCover\<lparr>photoIds := [''a'', ''b''], coverPhotoId := Some ''b''\<rparr>],
               setItemLog := [AlbumsKey]\<rparr>)
   \<and> coverPhotoId albumNoCover = None
   \<and> createOrUpdateAlbum ascii ''9'' ''t9''
       (gallery0\<lparr>albums := [albumT], albumName := ''trip'', selectedIds := [''a'', ''b'']\<rparr>) storeP
     = (AddedToAlbum 1 ''trip'',
        gallery0\<lparr>albums := [albumT\<lparr>photoIds := [''a'', ''b'']\<rparr>]\<rparr>,
        storeP\<lparr>albumsItem := Stored [albumT\<lparr>photoIds := [''a'', ''b'']\<rparr>], setItemLog := [AlbumsKey]\<rparr>)
   \<and> coverPhotoId albumT = Some ''a''
   \<and> coverPhotoId (albumT\<lparr>photoIds := [''a'', ''b'']\<rparr>) = Some ''a''"
proof -
  have h: "createOrUpdateAlbum ascii ''9'' ''t9''
       (gallery0\<lparr>albums := [albumNoCover], albumName := ''trip'', selectedIds := [''a'', ''b'']\<rparr>) storeP
     = (AddedToAlbum 1 ''trip'',
        gallery0\<lparr>albums := [albumNoCover\<lparr>photoIds := [''a'', ''b''], coverPhotoId := Some ''b''\<rparr>]\<rparr>,
        storeP\<lparr>albumsItem := Stored [albumNoCover\<lparr>photoIds := [''a'', ''b''], coverPhotoId := Some ''b''\<rparr>],
               setItemLog := [AlbumsKey]\<rparr>)"
    by (simp add: createOrUpdateAlbum_def Let_def saveAlbums_def setAlbums_def trim_Trip lower_Trip
        gallery0_def storeP_def albumNoCover_def orElse_def truthy_def)
  have c: "\<forall>a \<in> set (albums (gallery0\<lparr>albums := [albumNoCover], albumName := ''trip'',
              selectedIds := [''a'', ''b'']\<rparr>)). coverPhotoId a \<noteq> Some []"
    by (simp add: albumNoCover_def)
  have h': "createOrUpdateAlbum ascii ''9'' ''t9''
       (gallery0\<lparr>albums := [albumT], albumName := ''trip'', selectedIds := [''a'', ''b'']\<rparr>) storeP
     = (AddedToAlbum 1 ''trip'',
        gallery0\<lparr>albums := [albumT\<lparr>photoIds := [''a'', ''b'']\<rparr>]\<rparr>,
        storeP\<lparr>albumsItem := Stored [albumT\<lparr>photoIds := [''a'', ''b'']\<rparr>], setItemLog := [AlbumsKey]\<rparr>)"
    by (simp add: createOrUpdateAlbum_def Let_def saveAlbums_def setAlbums_def trim_Trip lower_Trip
        gallery0_def storeP_def albumT_def orElse_def truthy_def)
  from createOrUpdateAlbum_append_cover [OF h c] h h'
  show ?thesis by (simp add: albumNoCover_def albumT_def)
qed

text \<open>
  The gallery merges by name: when no album has the name \<open>n1\<close> up to case,
  creating \<open>n1\<close> with the photos \<open>ps1\<close> and then \<open>n2\<close>, equal to \<open>n1\<close> up to
  case after trimming, with the photos \<open>ps2\<close> adds one album, which lists
  every photo of \<open>ps1\<close> and \<open>ps2\<close>. Neither name is blank.
\<close>

lemma createOrUpdateAlbum_merges_by_name:
  assumes name1: "trim js n1 \<noteq> []" and name2: "trim js n2 \<noteq> []"
    and low: "toLowerCase js (trim js n2) = toLowerCase js (trim js n1)"
    and w: "AlbumsKey \<notin> unwritable s"
    and fresh: "findIndex (\<lambda>a. toLowerCase js (name a) = toLowerCase js (trim js n1)) (albums g) = None"
    and first: "createOrUpdateAlbum js i1 t1 (g\<lparr>albumName := n1, selectedIds := ps1\<rparr>) s = (m1, g1, s1)"
    and second: "createOrUpdateAlbum js i2 t2 (g1\<lparr>albumName := n2, selectedIds := ps2\<rparr>) s1 = (m2, g2, s2)"
  shows "\<exists>a. albums g2 = albums g @ [a] \<and> idA a = i1 \<and> name a = trim js n1
           \<and> set ps1 \<union> set ps2 \<subseteq> set (photoIds a) \<and> albumsItem s2 = Stored (albums g2)"
proof -
  let ?g = "g\<lparr>albumName := n1, selectedIds := ps1\<rparr>"
  let ?new = "\<lparr>idA = i1, name = trim js n1, createdAtA = Some t1, photoIds = ps1,
                coverPhotoId = (case ps1 of [] \<Rightarrow> None | first # _ \<Rightarrow> Some first)\<rparr>"
  have "createOrUpdateAlbum js i1 t1 ?g s =
      (CreatedAlbum (trim js n1) (length ps1),
       ?g\<lparr>albums := albums g @ [?new], showAlbumModal := False, selectedIds := [],
          selectionMode := False, albumName := [], isLoading := False\<rparr>,
       s\<lparr>albumsItem := Stored (albums g @ [?new]), setItemLog := AlbumsKey # setItemLog s\<rparr>)"
    using createOrUpdateAlbum_create [of js ?g s i1 t1] name1 w fresh by simp
  with first have g1: "albums g1 = albums g @ [?new]" and s1: "albumsItem s1 = Stored (albums g1)"
    and w1: "AlbumsKey \<notin> unwritable s1"
    using w by auto
  let ?g1 = "g1\<lparr>albumName := n2, selectedIds := ps2\<rparr>"
  let ?n = "length (albums g)"
  have idx: "findIndex (\<lambda>a. toLowerCase js (name a) = toLowerCase js (trim js (albumName ?g1))) (albums ?g1) = Some ?n"
    using fresh by (simp add: g1 low findIndex_append_new)
  have at: "albums g1 ! ?n = ?new"
    by (simp add: g1)
  show ?thesis
  proof (cases "filter (\<lambda>p. p \<notin> set ps1) ps2")
    case Nil
    then have sub: "set ps2 \<subseteq> set ps1"
      by (auto simp: filter_empty_conv)
    have "createOrUpdateAlbum js i2 t2 ?g1 s1 = (NoNewPhotos, ?g1\<lparr>isLoading := False\<rparr>, s1)"
      by (rule createOrUpdateAlbum_nochange [where i = ?n]) (use name2 idx Nil in \<open>simp_all add: at\<close>)
    with second have "albums g2 = albums g1" and "s2 = s1"
      by auto
    with g1 s1 sub show ?thesis by simp
  next
    case (Cons p rest)
    have "set ps2 \<subseteq> set (ps1 @ p # rest)"
      unfolding Cons [symmetric] by auto
    moreover
    have "filter (\<lambda>q. q \<notin> set (photoIds (albums ?g1 ! ?n))) (selectedIds ?g1) = p # rest"
      using Cons by (simp add: at)
    from createOrUpdateAlbum_append [OF _ _ idx this, of s1 i2 t2] name2 w1 second
    have "albums g2 = (albums g1)[?n := ?new\<lparr>photoIds := ps1 @ p # rest,
                                     coverPhotoId := orElse (coverPhotoId ?new) (Some p)\<rparr>]"
      and "albumsItem s2 = Stored (albums g2)"
      by (auto simp: at)
    ultimately show ?thesis
      by (auto simp: g1)
  qed
qed

text \<open>
  The Create button of the albums screen, when it creates, appends the new
  album to the albums of the screen whatever their names are.
\<close>

lemma createAlbum_appends:
  assumes "createAlbum js newId a s = Inr (AlbumCreated nm, a', s')"
  shows "albumsS a' = albumsS a @ [\<lparr>idA = newId, name = trim js (newAlbumName a), createdAtA = None,
                         photoIds = selectedPhotoIds a, coverPhotoId = None\<rparr>]
     \<and> albumsItem s' = Stored (albumsS a')"
  using assms
  by (auto simp: createAlbum_def Let_def setAlbums_def split: if_splits)

text \<open>
  C3: creating an album whose name matches an existing album's name up to
  case adds the photos to that album and never creates a second one. The
  gallery does so (lemma \<open>createOrUpdateAlbum_merges_by_name\<close>); the Create
  button of the albums screen appends a new album without looking at the
  names (lemma \<open>createAlbum_appends\<close>). After the gallery created \<open>Trip\<close>
  with photo \<open>a\<close>, creating \<open>trip\<close> with photo \<open>b\<close> on the albums screen
  stores two albums, \<open>Trip\<close> with \<open>a\<close> and \<open>trip\<close> with \<open>b\<close>.
\<close>

theorem createAlbum_duplicates_album_name:
  "createOrUpdateAlbum ascii ''1'' ''t0'' (galleryA\<lparr>albumName := ''Trip''\<rparr>) storeP
     = (CreatedAlbum ''Trip'' 1, galleryA\<lparr>albums := [albumT], selectedIds := []\<rparr>,
        storeP\<lparr>albumsItem := Stored [albumT], setItemLog := [AlbumsKey]\<rparr>)
   \<and> loadAlbumsAndPhotos albumsScreen0 (storeP\<lparr>albumsItem := Stored [albumT], setItemLog := [AlbumsKey]\<rparr>)
     = (Done, albumsScreen0\<lparr>albumsS := [albumT], photosS := [photoA, photoB], loading := False\<rparr>)
   \<and> createAlbum ascii ''2''
        (albumsScreen0\<lparr>albumsS := [albumT], photosS := [photoA, photoB], loading := False,
           showCreateModal := True, newAlbumName := ''trip'', selectedPhotoIds := [''b'']\<rparr>)
        (storeP\<lparr>albumsItem := Stored [albumT], setItemLog := [AlbumsKey]\<rparr>)
     = Inr (AlbumCreated ''trip'',
            albumsScreen0\<lparr>albumsS := [albumT, \<lparr>idA = ''2'', name = ''trip'', createdAtA = None,
                                               photoIds = [''b''], coverPhotoId = None\<rparr>],
              photosS := [photoA, photoB], loading := False, showCreateModal := False,
              newAlbumName := ''trip'', selectedPhotoIds := [''b'']\<rparr>,
            storeP\<lparr>albumsItem := Stored [albumT, \<lparr>idA = ''2'', name = ''trip'', createdAtA = None,
                                               photoIds = [''b''], coverPhotoId = None\<rparr>],
              setItemLog := [AlbumsKey, AlbumsKey]\<rparr>)
   \<and> toLowerCase ascii (name albumT) = toLowerCase ascii ''trip''"
  by (simp add: createOrUpdateAlbum_def Let_def saveAlbums_def setAlbums_def trim_Trip lower_Trip
      loadAlbumsAndPhotos_def getAlbums_def getPhotos_def parse_def createAlbum_def
      galleryA_def gallery0_def storeP_def albumT_def albumsScreen0_def)

end
